theory Spec2Isabelle
  imports
    Complex_Main
    "HOL-Library.AList"
    "HOL-Library.Char_ord"
    "HOL-Library.List_Lexorder"
    "HOL-Library.Multiset"
begin

section \<open>The Strava synchroniser \<open>scripts/fetch_strava.py\<close>\<close>

text \<open>
  A shallow embedding of the cache, week and report logic of \<open>fetch_strava.py\<close>.

  \<^item> An activity is the dictionary the Strava API returns. It is a record whose fields are
    optional: \<open>None\<close> is a key that is absent, so that \<open>a["k"]\<close> raises \<open>KeyError\<close> and
    \<open>a.get("k", d)\<close> gives the default. The values have the types Strava gives them.
  \<^item> The cache is a Python dictionary, which keeps insertion order: an association list
    with one entry per key, a new key appended at the end.
  \<^item> An exception is a value of \<open>error\<close>; a function that can raise returns \<open>error + 'a\<close>.
  \<^item> Python floats are read as exact rationals (\<open>rat\<close>): the arithmetic of the source is
    kept, its binary rounding is not.
  \<^item> Text is a list of bytes, the UTF-8 encoding of the Python string.
  \<^item> A \<open>date\<close> is its proleptic Gregorian ordinal (\<open>date.toordinal()\<close>: day 1 is
    0001-01-01), so \<open>d - timedelta(days=k)\<close> is \<open>d - k\<close>. Python's limits on the year
    (1 to 9999) are not modelled.
  \<^item> The files the script owns are a record \<open>files\<close>; the clock is an argument wherever the
    source calls \<open>datetime.now()\<close>.
\<close>

subsection \<open>Exceptions\<close>

datatype error = KeyError | ValueError | TypeError | JSONDecodeError | OSError | SystemExit

subsection \<open>Python's text conversions of integers\<close>

definition digit_char :: "nat \<Rightarrow> char" where
  "digit_char n = char_of (48 + n)"

fun str_nat :: "nat \<Rightarrow> string" where
  "str_nat n = (if n < 10 then [digit_char n] else str_nat (n div 10) @ [digit_char (n mod 10)])"

declare str_nat.simps [simp del]

text \<open>\<open>str(i)\<close> and \<open>f"{i}"\<close> of an integer.\<close>

definition str_int :: "int \<Rightarrow> string" where
  "str_int i = (if i < 0 then CHR ''-'' # str_nat (nat (- i)) else str_nat (nat i))"

text \<open>\<open>f"{i:02d}"\<close>: zero padded to two characters, the sign counted in the width.\<close>

definition pad2 :: "int \<Rightarrow> string" where
  "pad2 i = (if 0 \<le> i \<and> i < 10 then CHR ''0'' # str_int i else str_int i)"

subsection \<open>Activities and the cache\<close>

record activity =
  a_id :: "int option"
  a_type :: "string option"
  a_name :: "string option"
  start_date_local :: "string option"
  distance :: "rat option"
  moving_time :: "int option"
  has_heartrate :: "bool option"
  average_heartrate :: "rat option"

type_synonym cache = "(string \<times> activity) list"

text \<open>
  The merge loop of \<open>main\<close>:
  \<^verbatim>\<open>
    added = 0
    for a in new_activities:
        aid = str(a["id"])
        if aid not in cache:
            cache[aid] = a
            added += 1
  \<close>
  The accumulator \<open>added\<close> starts at 0. A record without \<open>id\<close> raises \<open>KeyError\<close>, which
  ends the run before the cache is saved.
\<close>

fun merge_loop :: "cache \<Rightarrow> activity list \<Rightarrow> nat \<Rightarrow> error + (cache \<times> nat)" where
  "merge_loop cache [] added = Inr (cache, added)"
| "merge_loop cache (a # new_activities) added =
     (case a_id a of
        None \<Rightarrow> Inl KeyError
      | Some i \<Rightarrow>
          (let aid = str_int i in
           if map_of cache aid = None
           then merge_loop (cache @ [(aid, a)]) new_activities (added + 1)
           else merge_loop cache new_activities added))"

definition merge :: "cache \<Rightarrow> activity list \<Rightarrow> error + (cache \<times> nat)" where
  "merge cache new_activities = merge_loop cache new_activities 0"

text \<open>The key a record is stored under, when it has an identifier.\<close>

definition key_of :: "activity \<Rightarrow> string option" where
  "key_of a = map_option str_int (a_id a)"

subsection \<open>Loading the cache\<close>

text \<open>
  What \<open>load_cache\<close> finds at \<open>CACHE_PATH\<close>. \<open>json.loads\<close> is not modelled: a file that
  can be read is classed by what \<open>json.loads\<close> does with its text, which is to raise
  \<open>JSONDecodeError\<close> (\<open>Malformed\<close>) or to return a value (\<open>Parsed\<close>). The value is an object
  (a dictionary), an array (a list), or anything else (a number, a string, a boolean,
  \<open>null\<close>). An entry of an array is an object, here an activity record, or any other JSON
  value, on which \<open>a["id"]\<close> raises \<open>TypeError\<close>.
\<close>

datatype json_item = Object activity | NonObject

datatype document = DictDoc cache | ListDoc "json_item list" | OtherDoc

datatype cache_file =
    Missing                 \<comment> \<open>\<open>CACHE_PATH.exists()\<close> is false\<close>
  | Unreadable              \<comment> \<open>\<open>read_text()\<close> raises \<open>OSError\<close>\<close>
  | Malformed               \<comment> \<open>\<open>json.loads\<close> raises \<open>JSONDecodeError\<close>\<close>
  | Parsed document

text \<open>What \<open>load_cache\<close> returns: a dictionary, or the parsed value that is neither a
  list nor a dictionary, handed back as it is by \<open>return data\<close>.\<close>

datatype loaded = Dict cache | NotADict

text \<open>The comprehension \<open>{str(a["id"]): a for a in data}\<close>, left to right: a later record
  with the same identifier replaces the value and keeps the key's place.\<close>

fun rekey :: "json_item list \<Rightarrow> cache \<Rightarrow> error + cache" where
  "rekey [] acc = Inr acc"
| "rekey (NonObject # data) acc = Inl TypeError"
| "rekey (Object a # data) acc =
     (case a_id a of
        None \<Rightarrow> Inl KeyError
      | Some i \<Rightarrow> rekey data (AList.update (str_int i) a acc))"

text \<open>The records of a list-shaped document, in order.\<close>

fun records_of :: "json_item list \<Rightarrow> activity list" where
  "records_of [] = []"
| "records_of (Object a # data) = a # records_of data"
| "records_of (NonObject # data) = records_of data"

text \<open>
  \<^verbatim>\<open>
    if CACHE_PATH.exists():
        try:
            data = json.loads(CACHE_PATH.read_text())
            if isinstance(data, list):
                return {str(a["id"]): a for a in data}
            return data
        except (json.JSONDecodeError, KeyError):
            return {}
    return {}
  \<close>
\<close>

fun load_cache :: "cache_file \<Rightarrow> error + loaded" where
  "load_cache Missing = Inr (Dict [])"
| "load_cache Unreadable = Inl OSError"
| "load_cache Malformed = Inr (Dict [])"
| "load_cache (Parsed (ListDoc data)) =
     (case rekey data [] of
        Inr c \<Rightarrow> Inr (Dict c)
      | Inl KeyError \<Rightarrow> Inr (Dict [])
      | Inl JSONDecodeError \<Rightarrow> Inr (Dict [])
      | Inl e \<Rightarrow> Inl e)"
| "load_cache (Parsed (DictDoc c)) = Inr (Dict c)"
| "load_cache (Parsed OtherDoc) = Inr NotADict"

subsection \<open>Dates: the arithmetic of Python's \<open>datetime\<close> module\<close>

text \<open>The functions of CPython's \<open>datetime.py\<close> that the script reaches, on ordinals.\<close>

definition is_leap :: "int \<Rightarrow> bool" where
  "is_leap year = (year mod 4 = 0 \<and> (year mod 100 \<noteq> 0 \<or> year mod 400 = 0))"

definition days_before_year :: "int \<Rightarrow> int" where
  "days_before_year year =
     (let y = year - 1 in y * 365 + y div 4 - y div 100 + y div 400)"

definition DAYS_IN_MONTH :: "int list" where
  "DAYS_IN_MONTH = [-1, 31, 28, 31, 30, 31, 30, 31, 31, 30, 31, 30, 31]"

definition DAYS_BEFORE_MONTH :: "int list" where
  "DAYS_BEFORE_MONTH = [-1, 0, 31, 59, 90, 120, 151, 181, 212, 243, 273, 304, 334]"

text \<open>Both are called with \<open>1 \<le> month \<le> 12\<close> only.\<close>

definition days_in_month :: "int \<Rightarrow> int \<Rightarrow> int" where
  "days_in_month year month =
     (if month = 2 \<and> is_leap year then 29 else DAYS_IN_MONTH ! nat month)"

definition days_before_month :: "int \<Rightarrow> int \<Rightarrow> int" where
  "days_before_month year month =
     DAYS_BEFORE_MONTH ! nat month + (if month > 2 \<and> is_leap year then 1 else 0)"

definition ymd2ord :: "int \<Rightarrow> int \<Rightarrow> int \<Rightarrow> int" where
  "ymd2ord year month day = days_before_year year + days_before_month year month + day"

text \<open>\<open>_ord2ymd\<close>: the year, month and day of an ordinal, by the 400, 100, 4 and 1 year
  cycles of the calendar.\<close>

definition ord2ymd :: "int \<Rightarrow> int \<times> int \<times> int" where
  "ord2ymd n0 =
     (let n = n0 - 1;
          n400 = n div 146097; n = n mod 146097;
          n100 = n div 36524; n = n mod 36524;
          n4 = n div 1461; n = n mod 1461;
          n1 = n div 365; n = n mod 365;
          year = n400 * 400 + 1 + n100 * 100 + n4 * 4 + n1
      in if n1 = 4 \<or> n100 = 4 then (year - 1, 12, 31)
         else
           (let leapyear = (n1 = 3 \<and> (n4 \<noteq> 24 \<or> n100 = 3));
                month = (n + 50) div 32;
                preceding = DAYS_BEFORE_MONTH ! nat month + (if month > 2 \<and> leapyear then 1 else 0)
            in if preceding > n
               then (let month = month - 1;
                         preceding = preceding -
                           (DAYS_IN_MONTH ! nat month + (if month = 2 \<and> leapyear then 1 else 0))
                     in (year, month, n - preceding + 1))
               else (year, month, n - preceding + 1)))"

text \<open>\<open>date.weekday()\<close>: Monday is 0.\<close>

definition weekday :: "int \<Rightarrow> int" where
  "weekday d = (d + 6) mod 7"

definition isoweek1monday :: "int \<Rightarrow> int" where
  "isoweek1monday year =
     (let firstday = ymd2ord year 1 1;
          firstweekday = (firstday + 6) mod 7;
          week1monday = firstday - firstweekday
      in if firstweekday > 3 then week1monday + 7 else week1monday)"

text \<open>\<open>date.isocalendar()\<close>: the ISO year, the ISO week and the ISO weekday.\<close>

definition isocalendar :: "int \<Rightarrow> int \<times> int \<times> int" where
  "isocalendar today =
     (let year = fst (ord2ymd today);
          week1monday = isoweek1monday year;
          week = (today - week1monday) div 7;
          day = (today - week1monday) mod 7
      in if week < 0
         then (let year = year - 1;
                   week1monday = isoweek1monday year
               in (year, (today - week1monday) div 7 + 1, (today - week1monday) mod 7 + 1))
         else if week \<ge> 52 \<and> today \<ge> isoweek1monday (year + 1)
         then (year + 1, 1, day + 1)
         else (year, week + 1, day + 1))"

subsection \<open>Date-times and \<open>datetime.fromisoformat\<close>\<close>

text \<open>
  A \<open>datetime\<close>: the date, the second of the day (hour, minute and second together), the
  microsecond, and the offset from UTC in microseconds when the value is aware.
\<close>

record datetime =
  dt_date :: int
  dt_second :: int
  dt_micro :: int
  dt_utcoffset :: "int option"

text \<open>\<open>s.replace("Z", "+00:00")\<close>: every \<open>Z\<close> of the string.\<close>

definition replace_Z :: "string \<Rightarrow> string" where
  "replace_Z s = concat (map (\<lambda>c. if c = CHR ''Z'' then ''+00:00'' else [c]) s)"

definition is_digit :: "char \<Rightarrow> bool" where
  "is_digit c = (CHR ''0'' \<le> c \<and> c \<le> CHR ''9'')"

definition parse_int :: "string \<Rightarrow> int option" where
  "parse_int s =
     (if s \<noteq> [] \<and> list_all is_digit s
      then Some (foldl (\<lambda>n c. 10 * n + (int (of_char c) - 48)) 0 s)
      else None)"

text \<open>
  \<open>fromisoformat\<close> reads the format that \<open>isoformat()\<close> writes,
  \<^verbatim>\<open>YYYY-MM-DD[*HH[:MM[:SS[.fff[fff]]]][+HH:MM[:SS[.ffffff]]]]\<close>,
  where \<open>*\<close> is any one character, and raises \<open>ValueError\<close> on anything else. The model
  follows \<open>_parse_isoformat_date\<close>, \<open>_parse_hh_mm_ss_ff\<close> and \<open>_parse_isoformat_time\<close> of
  \<open>datetime.py\<close>, with numbers of ASCII digits. (Python 3.11 and later read more
  spellings of ISO 8601; the model takes them for malformed.)
\<close>

definition parse_isoformat_date :: "string \<Rightarrow> (int \<times> int \<times> int) option" where
  "parse_isoformat_date dstr =
     (if length dstr \<noteq> 10 \<or> dstr ! 4 \<noteq> CHR ''-'' \<or> dstr ! 7 \<noteq> CHR ''-'' then None
      else case (parse_int (take 4 dstr), parse_int (take 2 (drop 5 dstr)),
                 parse_int (take 2 (drop 8 dstr))) of
             (Some year, Some month, Some day) \<Rightarrow> Some (year, month, day)
           | _ \<Rightarrow> None)"

definition parse_fraction :: "string \<Rightarrow> int option" where
  "parse_fraction f =
     (if length f = 3 then map_option (\<lambda>n. n * 1000) (parse_int f)
      else if length f = 6 then parse_int f
      else None)"

fun parse_hh_mm_ss_ff :: "string \<Rightarrow> (int \<times> int \<times> int \<times> int) option" where
  "parse_hh_mm_ss_ff [h1, h2] =
     map_option (\<lambda>h. (h, 0, 0, 0)) (parse_int [h1, h2])"
| "parse_hh_mm_ss_ff [h1, h2, c1, m1, m2] =
     (if c1 \<noteq> CHR '':'' then None
      else case (parse_int [h1, h2], parse_int [m1, m2]) of
             (Some h, Some m) \<Rightarrow> Some (h, m, 0, 0)
           | _ \<Rightarrow> None)"
| "parse_hh_mm_ss_ff (h1 # h2 # c1 # m1 # m2 # c2 # s1 # s2 # rest) =
     (if c1 \<noteq> CHR '':'' \<or> c2 \<noteq> CHR '':'' then None
      else case (parse_int [h1, h2], parse_int [m1, m2], parse_int [s1, s2]) of
             (Some h, Some m, Some s) \<Rightarrow>
               (case rest of
                  [] \<Rightarrow> Some (h, m, s, 0)
                | c3 # f \<Rightarrow>
                    if c3 \<noteq> CHR ''.'' then None
                    else map_option (\<lambda>us. (h, m, s, us)) (parse_fraction f))
           | _ \<Rightarrow> None)"
| "parse_hh_mm_ss_ff _ = None"

text \<open>\<open>tstr.find('-') + 1 or tstr.find('+') + 1\<close>: the place after the first \<open>-\<close>, or
  after the first \<open>+\<close> when there is no \<open>-\<close>; 0 when there is neither.\<close>

definition find_char :: "char \<Rightarrow> string \<Rightarrow> nat option" where
  "find_char c s = (if c \<in> set s then Some (length (takeWhile (\<lambda>x. x \<noteq> c) s)) else None)"

definition tz_pos :: "string \<Rightarrow> nat" where
  "tz_pos tstr =
     (case find_char CHR ''-'' tstr of
        Some i \<Rightarrow> i + 1
      | None \<Rightarrow> (case find_char CHR ''+'' tstr of Some i \<Rightarrow> i + 1 | None \<Rightarrow> 0))"

text \<open>The time of day and the offset; the offset is in microseconds, and \<open>timezone\<close>
  refuses one that is not strictly between minus and plus 24 hours.\<close>

definition parse_isoformat_time :: "string \<Rightarrow> ((int \<times> int \<times> int \<times> int) \<times> int option) option" where
  "parse_isoformat_time tstr =
     (if length tstr < 2 then None
      else
        (let p = tz_pos tstr;
             timestr = (if p > 0 then take (p - 1) tstr else tstr)
         in case parse_hh_mm_ss_ff timestr of
              None \<Rightarrow> None
            | Some time_comps \<Rightarrow>
                if p = 0 then Some (time_comps, None)
                else
                  (let tzstr = drop p tstr in
                   if length tzstr \<notin> {5, 8, 15} then None
                   else case parse_hh_mm_ss_ff tzstr of
                          None \<Rightarrow> None
                        | Some (h, m, s, us) \<Rightarrow>
                            (let tzsign = (if tstr ! (p - 1) = CHR ''-'' then - 1 else 1);
                                 td = tzsign * (((h * 3600 + m * 60 + s) * 1000000) + us)
                             in if \<bar>td\<bar> < 86400 * 1000000 then Some (time_comps, Some td)
                                else None))))"

text \<open>The constructor's checks of the fields (\<open>_check_date_fields\<close>,
  \<open>_check_time_fields\<close>).\<close>

definition make_datetime ::
  "int \<Rightarrow> int \<Rightarrow> int \<Rightarrow> int \<Rightarrow> int \<Rightarrow> int \<Rightarrow> int \<Rightarrow> int option \<Rightarrow> error + datetime" where
  "make_datetime year month day hour minute second micro tz =
     (if 1 \<le> year \<and> year \<le> 9999 \<and> 1 \<le> month \<and> month \<le> 12 \<and>
         1 \<le> day \<and> day \<le> days_in_month year month \<and>
         0 \<le> hour \<and> hour \<le> 23 \<and> 0 \<le> minute \<and> minute \<le> 59 \<and>
         0 \<le> second \<and> second \<le> 59 \<and> 0 \<le> micro \<and> micro \<le> 999999
      then Inr \<lparr>dt_date = ymd2ord year month day,
                dt_second = hour * 3600 + minute * 60 + second,
                dt_micro = micro, dt_utcoffset = tz\<rparr>
      else Inl ValueError)"

definition fromisoformat :: "string \<Rightarrow> error + datetime" where
  "fromisoformat date_string =
     (case parse_isoformat_date (take 10 date_string) of
        None \<Rightarrow> Inl ValueError
      | Some (year, month, day) \<Rightarrow>
          (let tstr = drop 11 date_string in
           if tstr = [] then make_datetime year month day 0 0 0 0 None
           else case parse_isoformat_time tstr of
                  None \<Rightarrow> Inl ValueError
                | Some ((hour, minute, second, micro), tz) \<Rightarrow>
                    make_datetime year month day hour minute second micro tz))"

text \<open>The expression \<open>datetime.fromisoformat(a["start_date_local"].replace("Z", "+00:00"))\<close>,
  which the source writes at every use of an activity's start.\<close>

definition start_datetime :: "activity \<Rightarrow> error + datetime" where
  "start_datetime a =
     (case start_date_local a of
        None \<Rightarrow> Inl KeyError
      | Some s \<Rightarrow> fromisoformat (replace_Z s))"

text \<open>Python's \<open>int(x)\<close> of a float: towards zero.\<close>

definition py_int :: "rat \<Rightarrow> int" where
  "py_int x = (if x \<ge> 0 then \<lfloor>x\<rfloor> else \<lceil>x\<rceil>)"

text \<open>
  \<open>int(dt.timestamp())\<close>. For an aware value the seconds since 1970-01-01T00:00:00+00:00
  (ordinal 719163); a naive value is local time, and \<open>local_offset\<close> is the offset from
  UTC, in seconds, that the system's time zone gives to it.
\<close>

definition timestamp :: "(datetime \<Rightarrow> int) \<Rightarrow> datetime \<Rightarrow> int" where
  "timestamp local_offset dt =
     (let wall = ((dt_date dt - 719163) * 86400 + dt_second dt) * 1000000 + dt_micro dt;
          off = (case dt_utcoffset dt of Some td \<Rightarrow> td | None \<Rightarrow> local_offset dt * 1000000)
      in py_int (rat_of_int (wall - off) / 1000000))"

subsection \<open>Formatting helpers\<close>

definition em_dash :: string where
  "em_dash = [CHR 0xE2, CHR 0x80, CHR 0x94]"

text \<open>\<open>sep.join(parts)\<close>.\<close>

fun join :: "string \<Rightarrow> string list \<Rightarrow> string" where
  "join sep [] = []"
| "join sep [x] = x"
| "join sep (x # y # ys) = x @ sep @ join sep (y # ys)"

definition newline :: string where
  "newline = [CHR 0x0A]"

text \<open>Python's \<open>round(x)\<close>: to the nearest integer, a tie to the even one.\<close>

definition py_round :: "rat \<Rightarrow> int" where
  "py_round x =
     (let f = \<lfloor>x\<rfloor>; r = x - rat_of_int f
      in if r < 1 / 2 then f
         else if r > 1 / 2 then f + 1
         else if even f then f else f + 1)"

text \<open>\<open>f"{x:.1f}"\<close>: one decimal, rounded as \<open>round\<close> does, the sign kept.\<close>

definition fmt_1f :: "rat \<Rightarrow> string" where
  "fmt_1f x =
     (let n = py_round (\<bar>x\<bar> * 10)
      in (if x < 0 then ''-'' else '''') @ str_int (n div 10) @ ''.'' @ str_int (n mod 10))"

definition METERS_PER_MILE :: rat where
  "METERS_PER_MILE = 160934 / 100"

definition BACKFILL_DAYS :: int where
  "BACKFILL_DAYS = 14"

definition format_duration :: "int \<Rightarrow> string" where
  "format_duration seconds =
     (let h = seconds div 3600; rem = seconds mod 3600;
          m = rem div 60; s = rem mod 60
      in if h > 0 then str_int h @ '':'' @ pad2 m @ '':'' @ pad2 s
         else str_int m @ '':'' @ pad2 s)"

definition format_duration_hm :: "int \<Rightarrow> string" where
  "format_duration_hm seconds =
     (let h = seconds div 3600; rem = seconds mod 3600;
          m = rem div 60
      in if h > 0 then str_int h @ ''h '' @ pad2 m @ ''m''
         else str_int m @ ''m'')"

text \<open>
  \<^verbatim>\<open>
    if distance_mi == 0:
        return "-"     (the em dash)
    pace_min = (moving_time_sec / 60) / distance_mi
    whole_min = int(pace_min)
    frac_sec = int(round((pace_min - whole_min) * 60))
    if frac_sec == 60:
        whole_min += 1
        frac_sec = 0
    return f"{whole_min}:{frac_sec:02d}/mi"
  \<close>
\<close>

definition format_pace :: "int \<Rightarrow> rat \<Rightarrow> string" where
  "format_pace moving_time_sec distance_mi =
     (if distance_mi = 0 then em_dash
      else
        (let pace_min = (rat_of_int moving_time_sec / 60) / distance_mi;
             whole_min = py_int pace_min;
             frac_sec = py_round ((pace_min - rat_of_int whole_min) * 60);
             carry = (frac_sec = 60);
             whole_min = (if carry then whole_min + 1 else whole_min);
             frac_sec = (if carry then 0 else frac_sec)
         in str_int whole_min @ '':'' @ pad2 frac_sec @ ''/mi''))"

definition format_speed :: "rat \<Rightarrow> int \<Rightarrow> string" where
  "format_speed distance_mi moving_time_sec =
     (if moving_time_sec = 0 then em_dash
      else fmt_1f (distance_mi / (rat_of_int moving_time_sec / 3600)) @ '' mph'')"

text \<open>\<open>str.lower()\<close>, on ASCII letters.\<close>

definition lower :: "string \<Rightarrow> string" where
  "lower s = map (\<lambda>c. if CHR ''A'' \<le> c \<and> c \<le> CHR ''Z'' then char_of (of_char c + (32::nat)) else c) s"

text \<open>\<open>a.get(key, default)\<close>.\<close>

definition get_or :: "'a option \<Rightarrow> 'a \<Rightarrow> 'a" where
  "get_or field dflt = (case field of Some v \<Rightarrow> v | None \<Rightarrow> dflt)"

definition is_run :: "activity \<Rightarrow> bool" where
  "is_run a = (lower (get_or (a_type a) '''') \<in> {''run'', ''virtualrun''})"

definition is_ride :: "activity \<Rightarrow> bool" where
  "is_ride a = (lower (get_or (a_type a) '''') \<in> {''ride'', ''virtualride''})"

definition pace_or_speed :: "activity \<Rightarrow> string" where
  "pace_or_speed a =
     (let dist_mi = get_or (distance a) 0 / METERS_PER_MILE;
          moving = get_or (moving_time a) 0
      in if is_run a then format_pace moving dist_mi
         else if is_ride a then format_speed dist_mi moving
         else em_dash)"

definition activity_type_short :: "activity \<Rightarrow> string" where
  "activity_type_short a =
     (let t = get_or (a_type a) ''Other'' in
      case map_of
        [(''Run'', ''Run''), (''VirtualRun'', ''Run''), (''Ride'', ''Ride''),
         (''VirtualRide'', ''Ride''), (''Swim'', ''Swim''), (''Walk'', ''Walk''),
         (''Hike'', ''Hike''), (''Yoga'', ''Yoga''), (''WeightTraining'', ''Wts''),
         (''Workout'', ''Wrkt'')] t of
        Some short \<Rightarrow> short
      | None \<Rightarrow> take 4 t)"

subsection \<open>Week helpers\<close>

text \<open>\<open>week_monday\<close> takes a \<open>datetime\<close> or a \<open>date\<close> and works on the date.\<close>

definition week_monday :: "int \<Rightarrow> int" where
  "week_monday d = d - weekday d"

definition iso_week_label :: "int \<Rightarrow> string" where
  "iso_week_label monday_date =
     (case isocalendar monday_date of (y, w, _) \<Rightarrow> str_int y @ ''-W'' @ pad2 w)"

text \<open>\<open>d.strftime('%b %d')\<close>, in the C locale.\<close>

definition month_abbr :: "int \<Rightarrow> string" where
  "month_abbr m =
     [''Jan'', ''Feb'', ''Mar'', ''Apr'', ''May'', ''Jun'',
      ''Jul'', ''Aug'', ''Sep'', ''Oct'', ''Nov'', ''Dec''] ! nat (m - 1)"

definition strftime_b_d :: "int \<Rightarrow> string" where
  "strftime_b_d d = (case ord2ymd d of (_, m, day) \<Rightarrow> month_abbr m @ '' '' @ pad2 day)"

definition week_date_range_str :: "int \<Rightarrow> string" where
  "week_date_range_str monday_date =
     (let sunday = monday_date + 6
      in ''Mon '' @ strftime_b_d monday_date @ '' - Sun '' @ strftime_b_d sunday)"

text \<open>The sort key \<open>a["start_date_local"]\<close>. It is applied to records that have the field.\<close>

definition start_key :: "activity \<Rightarrow> string" where
  "start_key a = get_or (start_date_local a) ''''"

text \<open>
  \<^verbatim>\<open>
    for a in cache.values():
        dt = datetime.fromisoformat(a["start_date_local"].replace("Z", "+00:00"))
        d = dt.date()
        if monday_date <= d <= sunday:
            results.append(a)
  \<close>
\<close>

fun week_filter :: "int \<Rightarrow> int \<Rightarrow> activity list \<Rightarrow> error + activity list" where
  "week_filter monday_date sunday [] = Inr []"
| "week_filter monday_date sunday (a # rest) =
     (case start_datetime a of
        Inl e \<Rightarrow> Inl e
      | Inr dt \<Rightarrow>
          (case week_filter monday_date sunday rest of
             Inl e \<Rightarrow> Inl e
           | Inr results \<Rightarrow>
               (let d = dt_date dt in
                if monday_date \<le> d \<and> d \<le> sunday then Inr (a # results) else Inr results)))"

text \<open>The local start date of a record, when the record has a start that
  \<open>fromisoformat\<close> reads, and the records that start between two dates.\<close>

definition start_date :: "activity \<Rightarrow> int option" where
  "start_date a = (case start_datetime a of Inr dt \<Rightarrow> Some (dt_date dt) | Inl e \<Rightarrow> None)"

definition in_range :: "int \<Rightarrow> int \<Rightarrow> activity \<Rightarrow> bool" where
  "in_range first_day last_day a =
     (case start_date a of Some d \<Rightarrow> first_day \<le> d \<and> d \<le> last_day | None \<Rightarrow> False)"

text \<open>\<open>results.sort(key=...)\<close> is stable, as \<open>sort_key\<close> is.\<close>

definition activities_for_week :: "cache \<Rightarrow> int \<Rightarrow> error + activity list" where
  "activities_for_week cache monday_date =
     (let sunday = monday_date + 6 in
      case week_filter monday_date sunday (map snd cache) of
        Inl e \<Rightarrow> Inl e
      | Inr results \<Rightarrow> Inr (sort_key start_key results))"

subsection \<open>The most recent timestamp and the fetch window\<close>

text \<open>\<open>max(xs, key=f)\<close> on a list that is not empty: the first of the greatest.\<close>

fun max_by :: "('a \<Rightarrow> 'k::linorder) \<Rightarrow> 'a \<Rightarrow> 'a list \<Rightarrow> 'a" where
  "max_by f best [] = best"
| "max_by f best (x # xs) = max_by f (if f best < f x then x else best) xs"

text \<open>
  \<^verbatim>\<open>
    if not cache:
        return None
    most_recent = max(cache.values(), key=lambda a: a["start_date_local"])
    dt = datetime.fromisoformat(most_recent["start_date_local"].replace("Z", "+00:00"))
    return int(dt.timestamp())
  \<close>
  \<open>max\<close> takes the key of every record, so one record without \<open>start_date_local\<close> raises
  \<open>KeyError\<close>.
\<close>

definition get_most_recent_timestamp :: "(datetime \<Rightarrow> int) \<Rightarrow> cache \<Rightarrow> error + int option" where
  "get_most_recent_timestamp local_offset cache =
     (case map snd cache of
        [] \<Rightarrow> Inr None
      | a # rest \<Rightarrow>
          if \<exists>b \<in> set (a # rest). start_date_local b = None then Inl KeyError
          else
            (let most_recent = max_by start_key a rest in
             case start_datetime most_recent of
               Inl e \<Rightarrow> Inl e
             | Inr dt \<Rightarrow> Inr (Some (timestamp local_offset dt))))"

text \<open>\<open>now - timedelta(days=k)\<close> on a \<open>datetime\<close>.\<close>

definition minus_days :: "datetime \<Rightarrow> int \<Rightarrow> datetime" where
  "minus_days dt k = dt\<lparr>dt_date := dt_date dt - k\<rparr>"

text \<open>
  \<^verbatim>\<open>
    most_recent = get_most_recent_timestamp(cache)
    if most_recent is None:
        after_epoch = int((datetime.now() - timedelta(days=BACKFILL_DAYS)).timestamp())
    else:
        after_epoch = most_recent
  \<close>
\<close>

definition fetch_window :: "(datetime \<Rightarrow> int) \<Rightarrow> datetime \<Rightarrow> cache \<Rightarrow> error + int" where
  "fetch_window local_offset now cache =
     (case get_most_recent_timestamp local_offset cache of
        Inl e \<Rightarrow> Inl e
      | Inr None \<Rightarrow> Inr (timestamp local_offset (minus_days now BACKFILL_DAYS))
      | Inr (Some most_recent) \<Rightarrow> Inr most_recent)"

subsection \<open>Markdown generation\<close>

text \<open>
  \<^verbatim>\<open>
    hr = ""
    if a.get("has_heartrate") and a.get("average_heartrate"):
        hr = str(int(a["average_heartrate"]))
    dist_str = f"{dist_mi:.1f} mi" if dist_mi > 0.05 else "-"
    return f"| {date_str} | {act_type} | {name} | {dist_str} | {dur} | {ps} | {hr} |"
  \<close>
  (the \<open>else\<close> branch of \<open>dist_str\<close> is the em dash).
\<close>

definition build_activity_row :: "activity \<Rightarrow> error + string" where
  "build_activity_row a =
     (case start_datetime a of
        Inl e \<Rightarrow> Inl e
      | Inr dt \<Rightarrow>
          (let date_str = strftime_b_d (dt_date dt);
               act_type = activity_type_short a;
               name = get_or (a_name a) [];
               dist_mi = get_or (distance a) 0 / METERS_PER_MILE;
               dur = format_duration (get_or (moving_time a) 0);
               ps = pace_or_speed a;
               hr = (if get_or (has_heartrate a) False \<and> get_or (average_heartrate a) 0 \<noteq> 0
                     then str_int (py_int (get_or (average_heartrate a) 0)) else []);
               dist_str = (if dist_mi > 5 / 100 then fmt_1f dist_mi @ '' mi'' else em_dash)
           in Inr (''| '' @ date_str @ '' | '' @ act_type @ '' | '' @ name @ '' | '' @ dist_str @
                   '' | '' @ dur @ '' | '' @ ps @ '' | '' @ hr @ '' |'')))"

text \<open>\<open>sum(a["distance"] / METERS_PER_MILE for a in xs)\<close>: a record without \<open>distance\<close>
  raises \<open>KeyError\<close>.\<close>

fun sum_miles :: "activity list \<Rightarrow> error + rat" where
  "sum_miles [] = Inr 0"
| "sum_miles (a # rest) =
     (case distance a of
        None \<Rightarrow> Inl KeyError
      | Some d \<Rightarrow>
          (case sum_miles rest of
             Inl e \<Rightarrow> Inl e
           | Inr miles \<Rightarrow> Inr (d / METERS_PER_MILE + miles)))"

text \<open>\<open>sum(a.get("moving_time", 0) for a in xs)\<close>.\<close>

definition sum_time :: "activity list \<Rightarrow> int" where
  "sum_time xs = sum_list (map (\<lambda>a. get_or (moving_time a) 0) xs)"

text \<open>The line \<open>run_pace = format_pace(run_time, run_miles) if run_miles > 0 else "-"\<close>
  (with the em dash).\<close>

definition run_pace :: "int \<Rightarrow> rat \<Rightarrow> string" where
  "run_pace run_time run_miles =
     (if run_miles > 0 then format_pace run_time run_miles else em_dash)"

text \<open>The dates that the loop over the activities adds to the set \<open>active_days\<close>, in the
  order of the activities.\<close>

fun start_dates :: "activity list \<Rightarrow> error + int list" where
  "start_dates [] = Inr []"
| "start_dates (a # rest) =
     (case start_datetime a of
        Inl e \<Rightarrow> Inl e
      | Inr dt \<Rightarrow>
          (case start_dates rest of
             Inl e \<Rightarrow> Inl e
           | Inr ds \<Rightarrow> Inr (dt_date dt # ds)))"

text \<open>
  \<^verbatim>\<open>
    now = datetime.now().date()
    sunday = monday_date + timedelta(days=6)
    days_so_far = (min(now, sunday) - monday_date).days + 1
    rest_days = days_so_far - len(active_days)
    is_current = monday_date <= now <= sunday
  \<close>
  \<open>today\<close> is the date of \<open>now\<close>; \<open>len(active_days)\<close> is the number of distinct dates.
\<close>

definition days_so_far :: "int \<Rightarrow> int \<Rightarrow> int" where
  "days_so_far monday_date today = (min today (monday_date + 6) - monday_date) + 1"

definition rest_days :: "int list \<Rightarrow> int \<Rightarrow> int \<Rightarrow> int" where
  "rest_days dates monday_date today =
     days_so_far monday_date today - int (length (remdups dates))"

definition is_current :: "int \<Rightarrow> int \<Rightarrow> bool" where
  "is_current monday_date today = (monday_date \<le> today \<and> today \<le> monday_date + 6)"

definition plural :: "nat \<Rightarrow> string \<Rightarrow> string \<Rightarrow> string" where
  "plural n one many = (if n = 1 then one else many)"

definition build_week_totals :: "activity list \<Rightarrow> int \<Rightarrow> datetime \<Rightarrow> error + string" where
  "build_week_totals activities monday_date now =
     (let runs = filter is_run activities;
          rides = filter is_ride activities
      in case sum_miles runs of
           Inl e \<Rightarrow> Inl e
         | Inr run_miles \<Rightarrow>
         (case sum_miles rides of
            Inl e \<Rightarrow> Inl e
          | Inr ride_miles \<Rightarrow>
          (let run_time = sum_time runs;
               ride_time = sum_time rides;
               total_time = sum_time activities;
               pace = run_pace run_time run_miles
           in case start_dates activities of
                Inl e \<Rightarrow> Inl e
              | Inr dates \<Rightarrow>
                (let today = dt_date now;
                     rest = rest_days dates monday_date today
                 in Inr (join newline
                    [''- Running: '' @ fmt_1f run_miles @ '' mi | '' @ str_int (int (length runs)) @
                       '' '' @ plural (length runs) ''run'' ''runs'' @ '' | avg pace '' @ pace,
                     ''- Cycling: '' @ fmt_1f ride_miles @ '' mi | '' @ str_int (int (length rides)) @
                       '' '' @ plural (length rides) ''ride'' ''rides'' @ '' | '' @
                       format_duration_hm ride_time,
                     ''- Strength: (see status.md)'',
                     (if is_current monday_date today
                      then ''- Rest days so far: '' @ str_int rest @ ''/'' @
                           str_int (days_so_far monday_date today)
                      else ''- Rest days: '' @ str_int rest),
                     ''- Total training hours: '' @ format_duration_hm total_time])))))"

text \<open>The rows of the activity table: \<open>build_activity_row\<close> of each activity in turn.\<close>

fun activity_rows :: "activity list \<Rightarrow> error + string list" where
  "activity_rows [] = Inr []"
| "activity_rows (a # rest) =
     (case build_activity_row a of
        Inl e \<Rightarrow> Inl e
      | Inr row \<Rightarrow>
          (case activity_rows rest of
             Inl e \<Rightarrow> Inl e
           | Inr rows \<Rightarrow> Inr (row # rows)))"

definition table_head :: "string list" where
  "table_head =
     [''## Activities'',
      ''| Date | Type | Name | Dist | Time | Pace/Speed | Avg HR |'',
      ''|------|------|------|------|------|------------|--------|'']"

definition no_activities_row :: string where
  "no_activities_row =
     ''| '' @ em_dash @ '' | '' @ em_dash @ '' | No activities | '' @ em_dash @ '' | '' @
     em_dash @ '' | '' @ em_dash @ '' | '' @ em_dash @ '' |''"

definition no_activities_yet_row :: string where
  "no_activities_yet_row =
     ''| '' @ em_dash @ '' | '' @ em_dash @ '' | No activities yet | '' @ em_dash @ '' | '' @
     em_dash @ '' | '' @ em_dash @ '' | '' @ em_dash @ '' |''"

subsection \<open>The files\<close>

text \<open>
  The files under \<open>data/\<close>: the cache, \<open>current_week.md\<close>, and the directory \<open>weekly/\<close> as
  a map from file name to text. A file that is absent is \<open>None\<close> (\<open>Missing\<close> for the cache).
  \<open>save_cache\<close> writes \<open>json.dumps(cache)\<close>, which \<open>json.loads\<close> reads back as the same
  dictionary.
\<close>

record files =
  cache_path :: cache_file
  current_week_path :: "string option"
  weekly_dir :: "string \<Rightarrow> string option"

definition save_cache :: "files \<Rightarrow> cache \<Rightarrow> files" where
  "save_cache fs cache = fs\<lparr>cache_path := Parsed (DictDoc cache)\<rparr>"

text \<open>\<open>now.strftime('%Y-%m-%d %H:%M')\<close>.\<close>

definition strftime_ymd_hm :: "datetime \<Rightarrow> string" where
  "strftime_ymd_hm now =
     (case ord2ymd (dt_date now) of (y, m, d) \<Rightarrow>
        str_int y @ ''-'' @ pad2 m @ ''-'' @ pad2 d @ '' '' @
        pad2 (dt_second now div 3600) @ '':'' @ pad2 (dt_second now mod 3600 div 60))"

text \<open>\<open>write_current_week\<close>: reads the clock once itself (\<open>now\<close>) and once more inside
  \<open>build_week_totals\<close> (\<open>now_totals\<close>), and always writes the file.\<close>

definition write_current_week :: "files \<Rightarrow> cache \<Rightarrow> datetime \<Rightarrow> datetime \<Rightarrow> error + files" where
  "write_current_week fs cache now now_totals =
     (let monday = week_monday (dt_date now) in
      case activities_for_week cache monday of
        Inl e \<Rightarrow> Inl e
      | Inr activities \<Rightarrow>
          (let header = ''# Current Week ('' @ week_date_range_str monday @ '')'';
               updated = ''*Last updated: '' @ strftime_ymd_hm now @ ''*''
           in case build_week_totals activities monday now_totals of
                Inl e \<Rightarrow> Inl e
              | Inr totals \<Rightarrow>
                  (case activity_rows activities of
                     Inl e \<Rightarrow> Inl e
                   | Inr rows \<Rightarrow>
                       (let lines = [header, updated, [], ''## Totals'', totals, []] @ table_head @
                              (if activities \<noteq> [] then rows else [no_activities_yet_row]) @ [[]]
                        in Inr (fs\<lparr>current_week_path := Some (join newline lines @ newline)\<rparr>)))))"

text \<open>
  \<open>generate_weekly_summary\<close>: the file \<open>weekly/<label>.md\<close>.
  \<^verbatim>\<open>
    label = iso_week_label(monday_date)
    week_path = WEEKLY_DIR / f"{label}.md"
    if week_path.exists():
        return  # Already generated
  \<close>
\<close>

definition week_path :: "int \<Rightarrow> string" where
  "week_path monday_date = iso_week_label monday_date @ ''.md''"

definition weekly_lines :: "int \<Rightarrow> string \<Rightarrow> activity list \<Rightarrow> string list \<Rightarrow> string list" where
  "weekly_lines monday_date totals activities rows =
     (let iso_wk = fst (snd (isocalendar monday_date));
          header = ''# Week '' @ pad2 iso_wk @ '' ('' @ week_date_range_str monday_date @ '')''
      in [header, [], ''## Totals'', totals, []] @ table_head @
         (if activities \<noteq> [] then rows else [no_activities_row]) @
         [[], ''## Body & Injury Notes'', ''- (to be filled in)'', [],
          ''## Training Notes'', ''- (to be filled in)'', []])"

definition generate_weekly_summary :: "files \<Rightarrow> cache \<Rightarrow> int \<Rightarrow> datetime \<Rightarrow> error + files" where
  "generate_weekly_summary fs cache monday_date now_totals =
     (if weekly_dir fs (week_path monday_date) \<noteq> None then Inr fs
      else case activities_for_week cache monday_date of
             Inl e \<Rightarrow> Inl e
           | Inr activities \<Rightarrow>
               (case build_week_totals activities monday_date now_totals of
                  Inl e \<Rightarrow> Inl e
                | Inr totals \<Rightarrow>
                    (case activity_rows activities of
                       Inl e \<Rightarrow> Inl e
                     | Inr rows \<Rightarrow>
                         Inr (fs\<lparr>weekly_dir := (weekly_dir fs)(week_path monday_date \<mapsto>
                                join newline (weekly_lines monday_date totals activities rows)
                                  @ newline)\<rparr>))))"

text \<open>
  \<^verbatim>\<open>
    now = datetime.now()
    this_monday = week_monday(now)
    last_monday = this_monday - timedelta(days=7)
    label = iso_week_label(last_monday)
    week_path = WEEKLY_DIR / f"{label}.md"
    if not week_path.exists():
        generate_weekly_summary(cache, last_monday)
        return label
    return None
  \<close>
\<close>

definition check_weekly_rollover ::
  "files \<Rightarrow> cache \<Rightarrow> datetime \<Rightarrow> datetime \<Rightarrow> error + (files \<times> string option)" where
  "check_weekly_rollover fs cache now now_totals =
     (let this_monday = week_monday (dt_date now);
          last_monday = this_monday - 7;
          label = iso_week_label last_monday
      in if weekly_dir fs (label @ ''.md'') = None
         then (case generate_weekly_summary fs cache last_monday now_totals of
                 Inl e \<Rightarrow> Inl e
               | Inr fs' \<Rightarrow> Inr (fs', Some label))
         else Inr (fs, None))"

subsection \<open>A run\<close>

text \<open>
  The clock, read where the source calls \<open>datetime.now()\<close>: for the fetch window, in
  \<open>check_weekly_rollover\<close>, in the \<open>build_week_totals\<close> it reaches, in
  \<open>write_current_week\<close> and in the \<open>build_week_totals\<close> it reaches.
\<close>

record clock =
  at_fetch :: datetime
  at_rollover :: datetime
  at_rollover_totals :: datetime
  at_current :: datetime
  at_current_totals :: datetime

definition status_line :: "nat \<Rightarrow> string option \<Rightarrow> string" where
  "status_line added rollover_label =
     join '' ''
       ([if added > 0
         then ''Fetched '' @ str_int (int added) @ '' new '' @ plural added ''activity'' ''activities'' @ ''.''
         else ''No new activities.'',
         ''Current week file updated.''] @
        (case rollover_label of
           Some label \<Rightarrow> if label \<noteq> [] then [''Generated weekly summary: '' @ label @ ''.''] else []
         | None \<Rightarrow> []))"

text \<open>
  The cache a run works on:
  \<^verbatim>\<open>
    cache = load_cache()
    if args.force:
        cache = {}
  \<close>
  A loaded value that is not a dictionary fails at its first use as one.
\<close>

definition starting_cache :: "bool \<Rightarrow> cache_file \<Rightarrow> error + cache" where
  "starting_cache force file =
     (case load_cache file of
        Inl e \<Rightarrow> Inl e
      | Inr loaded \<Rightarrow>
          (case (if force then Dict [] else loaded) of
             NotADict \<Rightarrow> Inl TypeError
           | Dict cache \<Rightarrow> Inr cache))"

text \<open>
  \<open>main\<close>. \<open>credentials\<close> says that the three credentials are set; \<open>fetch\<close> is the token
  refresh followed by \<open>fetch_activities_after\<close>, which may raise. The result is the files
  as the run leaves them and what the run prints, or the exception that ended it.
\<close>

definition main ::
  "bool \<Rightarrow> bool \<Rightarrow> (datetime \<Rightarrow> int) \<Rightarrow> clock \<Rightarrow> (int \<Rightarrow> error + activity list) \<Rightarrow> files \<Rightarrow>
     files \<times> (error + string)" where
  "main force credentials local_offset clk fetch fs =
     (if \<not> credentials then (fs, Inl SystemExit)
      else case starting_cache force (cache_path fs) of
        Inl e \<Rightarrow> (fs, Inl e)
      | Inr cache \<Rightarrow>
          (case fetch_window local_offset (at_fetch clk) cache of
             Inl e \<Rightarrow> (fs, Inl e)
           | Inr after_epoch \<Rightarrow>
             (case fetch after_epoch of
                Inl e \<Rightarrow> (fs, Inl e)
              | Inr new_activities \<Rightarrow>
                (case merge cache new_activities of
                   Inl e \<Rightarrow> (fs, Inl e)
                 | Inr (cache', added) \<Rightarrow>
                   (let fs1 = save_cache fs cache' in
                    case check_weekly_rollover fs1 cache' (at_rollover clk) (at_rollover_totals clk) of
                      Inl e \<Rightarrow> (fs1, Inl e)
                    | Inr (fs2, rollover_label) \<Rightarrow>
                      (case write_current_week fs2 cache' (at_current clk) (at_current_totals clk) of
                         Inl e \<Rightarrow> (fs2, Inl e)
                       | Inr fs3 \<Rightarrow> (fs3, Inr (status_line added rollover_label))))))))"

subsection \<open>Example records\<close>

text \<open>A record with no field, and three activities as Strava reports them.\<close>

definition no_fields :: activity where
  "no_fields = \<lparr>a_id = None, a_type = None, a_name = None, start_date_local = None,
     distance = None, moving_time = None, has_heartrate = None, average_heartrate = None\<rparr>"

definition monday_run :: activity where
  "monday_run = no_fields\<lparr>a_id := Some 101, a_type := Some ''Run'',
     a_name := Some ''Morning Run'', start_date_local := Some ''2024-01-15T07:30:00Z'',
     distance := Some (9977908 / 1000), moving_time := Some 3720\<rparr>"

definition tuesday_ride :: activity where
  "tuesday_ride = no_fields\<lparr>a_id := Some 102, a_type := Some ''Ride'',
     a_name := Some ''Commute'', start_date_local := Some ''2024-01-16T18:05:00Z'',
     distance := Some 16093, moving_time := Some 2400\<rparr>"

definition next_week_run :: activity where
  "next_week_run = no_fields\<lparr>a_id := Some 103, a_type := Some ''Run'',
     a_name := Some ''Long Run'', start_date_local := Some ''2024-01-22T06:00:00Z'',
     distance := Some 16093, moving_time := Some 5400\<rparr>"

section \<open>Rounding and the pace\<close>








section \<open>The records of a week\<close>

lemma week_filter_result:
  "week_filter m s xs = Inr rs \<Longrightarrow>
     rs = filter (in_range m s) xs \<and> (\<forall>a \<in> set xs. start_date a \<noteq> None)"
proof (induction xs arbitrary: rs)
  case Nil
  then show ?case by simp
next
  case (Cons a xs)
  from Cons.prems obtain dt rs' where dt: "start_datetime a = Inr dt"
    and rest: "week_filter m s xs = Inr rs'"
    and rs: "rs = (if m \<le> dt_date dt \<and> dt_date dt \<le> s then a # rs' else rs')"
    by (auto simp: Let_def split: sum.splits if_splits)
  from Cons.IH[OF rest] have ih: "rs' = filter (in_range m s) xs"
    "\<forall>a \<in> set xs. start_date a \<noteq> None"
    by simp_all
  have "in_range m s a = (m \<le> dt_date dt \<and> dt_date dt \<le> s)"
    by (simp add: in_range_def start_date_def dt)
  moreover have "start_date a \<noteq> None" by (simp add: start_date_def dt)
  ultimately show ?case using rs ih by simp
qed



lemma activities_for_week_parsed:
  assumes "activities_for_week cache monday_date = Inr rs"
  shows "\<forall>a \<in> set (map snd cache). start_date a \<noteq> None"
proof -
  from assms obtain rs' where "week_filter monday_date (monday_date + 6) (map snd cache) = Inr rs'"
    by (auto simp: activities_for_week_def Let_def split: sum.splits)
  from week_filter_result[OF this] show ?thesis by simp
qed




section \<open>The merge\<close>

lemma merge_loop_props:
  "merge_loop c b n = Inr (c', n') \<Longrightarrow>
     (\<exists>new. c' = c @ new \<and> n' = n + length new \<and>
        (\<forall>k. map_of c k = None \<longrightarrow> map_of new k = find (\<lambda>a. key_of a = Some k) b) \<and>
        distinct (map fst new) \<and> (\<forall>k \<in> fst ` set new. map_of c k = None)) \<and>
     (\<forall>a \<in> set b. key_of a \<noteq> None)"
proof (induction b arbitrary: c n)
  case Nil
  then show ?case by simp
next
  case (Cons a b)
  from Cons.prems obtain i where i: "a_id a = Some i"
    by (cases "a_id a") auto
  let ?aid = "str_int i"
  have ka: "key_of a = Some ?aid" by (simp add: key_of_def i)
  show ?case
  proof (cases "map_of c ?aid = None")
    case True
    with Cons.prems i have run: "merge_loop (c @ [(?aid, a)]) b (n + 1) = Inr (c', n')"
      by simp
    from Cons.IH[OF run] obtain new where new:
      "c' = (c @ [(?aid, a)]) @ new" "n' = n + 1 + length new"
      "\<forall>k. map_of (c @ [(?aid, a)]) k = None \<longrightarrow> map_of new k = find (\<lambda>a. key_of a = Some k) b"
      "distinct (map fst new)" "\<forall>k \<in> fst ` set new. map_of (c @ [(?aid, a)]) k = None"
      and keys: "\<forall>a \<in> set b. key_of a \<noteq> None"
      by blast
    have notin: "?aid \<notin> fst ` set new"
    proof
      assume "?aid \<in> fst ` set new"
      with new(5) have "map_of (c @ [(?aid, a)]) ?aid = None" by blast
      then show False by (simp add: map_add_def split: option.splits)
    qed
    have old: "\<forall>k \<in> fst ` set ((?aid, a) # new). map_of c k = None"
    proof
      fix k assume k: "k \<in> fst ` set ((?aid, a) # new)"
      show "map_of c k = None"
      proof (cases "k = ?aid")
        case True
        with \<open>map_of c ?aid = None\<close> show ?thesis by simp
      next
        case False
        with k have "k \<in> fst ` set new" by auto
        with new(5) have "map_of (c @ [(?aid, a)]) k = None" by (rule bspec)
        then show ?thesis by (simp add: map_add_def split: option.splits)
      qed
    qed
    have look: "\<forall>k. map_of c k = None \<longrightarrow>
        map_of ((?aid, a) # new) k = find (\<lambda>a. key_of a = Some k) (a # b)"
    proof (intro allI impI)
      fix k assume c: "map_of c k = None"
      show "map_of ((?aid, a) # new) k = find (\<lambda>a. key_of a = Some k) (a # b)"
      proof (cases "k = ?aid")
        case True
        then show ?thesis by (simp add: ka)
      next
        case False
        with c have "map_of (c @ [(?aid, a)]) k = None" by (simp add: map_add_def)
        with new(3) have "map_of new k = find (\<lambda>a. key_of a = Some k) b" by blast
        with False show ?thesis by (auto simp: ka)
      qed
    qed
    have "c' = c @ ((?aid, a) # new) \<and> n' = n + length ((?aid, a) # new) \<and>
        (\<forall>k. map_of c k = None \<longrightarrow>
           map_of ((?aid, a) # new) k = find (\<lambda>a. key_of a = Some k) (a # b)) \<and>
        distinct (map fst ((?aid, a) # new)) \<and>
        (\<forall>k \<in> fst ` set ((?aid, a) # new). map_of c k = None)"
      using new(1,2,4) notin old look by simp
    then have "\<exists>new. c' = c @ new \<and> n' = n + length new \<and>
        (\<forall>k. map_of c k = None \<longrightarrow> map_of new k = find (\<lambda>a. key_of a = Some k) (a # b)) \<and>
        distinct (map fst new) \<and> (\<forall>k \<in> fst ` set new. map_of c k = None)"
      by (rule exI)
    with keys ka show ?thesis by simp
  next
    case False
    with Cons.prems i have run: "merge_loop c b n = Inr (c', n')"
      by simp
    from Cons.IH[OF run] obtain new where new:
      "c' = c @ new" "n' = n + length new"
      "\<forall>k. map_of c k = None \<longrightarrow> map_of new k = find (\<lambda>a. key_of a = Some k) b"
      "distinct (map fst new)" "\<forall>k \<in> fst ` set new. map_of c k = None"
      and keys: "\<forall>a \<in> set b. key_of a \<noteq> None"
      by blast
    have look: "\<forall>k. map_of c k = None \<longrightarrow>
        map_of new k = find (\<lambda>a. key_of a = Some k) (a # b)"
      using new(3) False by (auto simp: ka)
    from new(1,2,4,5) look have "\<exists>new. c' = c @ new \<and> n' = n + length new \<and>
        (\<forall>k. map_of c k = None \<longrightarrow> map_of new k = find (\<lambda>a. key_of a = Some k) (a # b)) \<and>
        distinct (map fst new) \<and> (\<forall>k \<in> fst ` set new. map_of c k = None)"
      by blast
    with keys ka show ?thesis by simp
  qed
qed

lemma merge_loop_known:
  "\<forall>a \<in> set b. \<exists>k. key_of a = Some k \<and> map_of c k \<noteq> None \<Longrightarrow> merge_loop c b n = Inr (c, n)"
  by (induction b arbitrary: n) (auto simp: key_of_def)

lemma merge_loop_total:
  "\<forall>a \<in> set b. a_id a \<noteq> None \<Longrightarrow> \<exists>r. merge_loop c b n = Inr r"
  by (induction b arbitrary: c n) (auto simp: Let_def)


lemma merge_raises:
  "\<exists>a \<in> set b. a_id a = None \<Longrightarrow> merge_loop c b n = Inl KeyError"
  by (induction b arbitrary: c n) (auto simp: Let_def split: option.splits)

text \<open>
  Claim C1. Merging a batch of records that carry an identifier returns a cache in which
  every entry of the old cache is unchanged (no entry is overwritten), a key that was absent
  holds the first record of the batch with that identifier (and stays absent when the batch
  has none), and the count returned is the number of keys that are new. Merging the same
  batch into the result adds nothing and returns the same cache.
\<close>

theorem merge_spec:
  assumes ids: "\<forall>a \<in> set batch. a_id a \<noteq> None"
  shows "\<exists>cache' added. merge cache batch = Inr (cache', added) \<and>
      (\<forall>k v. map_of cache k = Some v \<longrightarrow> map_of cache' k = Some v) \<and>
      (\<forall>k. map_of cache k = None \<longrightarrow> map_of cache' k = find (\<lambda>a. key_of a = Some k) batch) \<and>
      added = card (dom (map_of cache') - dom (map_of cache)) \<and>
      merge cache' batch = Inr (cache', 0)"
proof -
  from merge_loop_total[OF ids] obtain c' n where run: "merge_loop cache batch 0 = Inr (c', n)"
    by (metis surj_pair)
  from merge_loop_props[OF run] obtain new where new:
    "c' = cache @ new" "n = length new"
    "\<forall>k. map_of cache k = None \<longrightarrow> map_of new k = find (\<lambda>a. key_of a = Some k) batch"
    "distinct (map fst new)" "\<forall>k \<in> fst ` set new. map_of cache k = None"
    and keys: "\<forall>a \<in> set batch. key_of a \<noteq> None"
    by auto
  have keep: "\<forall>k v. map_of cache k = Some v \<longrightarrow> map_of c' k = Some v"
  proof (intro allI impI)
    fix k v assume kv: "map_of cache k = Some v"
    have "k \<notin> fst ` set new"
    proof
      assume "k \<in> fst ` set new"
      with new(5) have "map_of cache k = None" by (rule bspec)
      with kv show False by simp
    qed
    then have "map_of new k = None" by (simp add: map_of_eq_None_iff)
    with kv show "map_of c' k = Some v" by (simp add: new(1) map_add_def)
  qed
  have ins: "\<forall>k. map_of cache k = None \<longrightarrow> map_of c' k = find (\<lambda>a. key_of a = Some k) batch"
    using new(3) by (simp add: new(1) map_add_def split: option.splits)
  have "dom (map_of c') - dom (map_of cache) = fst ` set new"
  proof -
    have "fst ` set new \<inter> dom (map_of cache) = {}"
      using new(5) by (auto simp: dom_def)
    then show ?thesis by (auto simp: new(1) dom_map_of_conv_image_fst)
  qed
  moreover have "card (fst ` set new) = length new"
    using distinct_card[OF new(4)] by simp
  ultimately have cnt: "n = card (dom (map_of c') - dom (map_of cache))"
    using new(2) by simp
  have again: "merge_loop c' batch 0 = Inr (c', 0)"
  proof (rule merge_loop_known, rule ballI)
    fix a assume a: "a \<in> set batch"
    with keys obtain k where k: "key_of a = Some k" by auto
    have "map_of c' k \<noteq> None"
    proof (cases "map_of cache k")
      case None
      with ins have "map_of c' k = find (\<lambda>a. key_of a = Some k) batch" by simp
      moreover have "find (\<lambda>a. key_of a = Some k) batch \<noteq> None"
        using a k by (auto simp: find_None_iff)
      ultimately show ?thesis by simp
    next
      case (Some v)
      with keep show ?thesis by simp
    qed
    with k show "\<exists>k. key_of a = Some k \<and> map_of c' k \<noteq> None" by blast
  qed
  from run keep ins cnt again show ?thesis
    unfolding merge_def by blast
qed

theorem merge_spec_witness:
  "\<exists>cache' added.
      merge [(''101'', monday_run)] [monday_run\<lparr>a_name := Some ''Renamed''\<rparr>, tuesday_ride, tuesday_ride]
        = Inr (cache', added) \<and>
      map_of cache' ''101'' = Some monday_run \<and>
      added = card (dom (map_of cache') - dom (map_of [(''101'', monday_run)])) \<and>
      merge cache' [monday_run\<lparr>a_name := Some ''Renamed''\<rparr>, tuesday_ride, tuesday_ride]
        = Inr (cache', 0)"
proof -
  have ids: "\<forall>a \<in> set [monday_run\<lparr>a_name := Some ''Renamed''\<rparr>, tuesday_ride, tuesday_ride].
      a_id a \<noteq> None"
    by (simp add: monday_run_def tuesday_ride_def no_fields_def)
  have old: "map_of [(''101'', monday_run)] ''101'' = Some monday_run"
    by simp
  from merge_spec[OF ids, of "[(''101'', monday_run)]"] old show ?thesis
    by blast
qed

section \<open>Loading the cache\<close>

lemma find_snoc:
  "find P (xs @ [x]) = (case find P xs of Some y \<Rightarrow> Some y | None \<Rightarrow> if P x then Some x else None)"
  by (induction xs) auto

lemma rekey_records:
  "\<forall>x \<in> set data. \<exists>a. x = Object a \<and> a_id a \<noteq> None \<Longrightarrow>
     \<exists>c. rekey data acc = Inr c \<and>
         (\<forall>k. map_of c k =
            (case find (\<lambda>a. key_of a = Some k) (rev (records_of data)) of
               Some a \<Rightarrow> Some a
             | None \<Rightarrow> map_of acc k)) \<and>
         (distinct (map fst acc) \<longrightarrow> distinct (map fst c))"
proof (induction data arbitrary: acc)
  case Nil
  then show ?case by simp
next
  case (Cons x data)
  from Cons.prems obtain a i where x: "x = Object a" and i: "a_id a = Some i"
    by auto
  from Cons.prems have rest: "\<forall>x \<in> set data. \<exists>a. x = Object a \<and> a_id a \<noteq> None"
    by simp
  let ?acc = "AList.update (str_int i) a acc"
  from Cons.IH[OF rest, of ?acc] obtain c where c:
    "rekey data ?acc = Inr c"
    "\<forall>k. map_of c k =
        (case find (\<lambda>a. key_of a = Some k) (rev (records_of data)) of
           Some a \<Rightarrow> Some a
         | None \<Rightarrow> map_of ?acc k)"
    "distinct (map fst ?acc) \<longrightarrow> distinct (map fst c)"
    by blast
  have run: "rekey (x # data) acc = Inr c"
    using c(1) by (simp add: x i)
  have look: "\<forall>k. map_of c k =
        (case find (\<lambda>a. key_of a = Some k) (rev (records_of (x # data))) of
           Some a \<Rightarrow> Some a
         | None \<Rightarrow> map_of acc k)"
  proof
    fix k
    show "map_of c k =
        (case find (\<lambda>a. key_of a = Some k) (rev (records_of (x # data))) of
           Some a \<Rightarrow> Some a
         | None \<Rightarrow> map_of acc k)"
      using c(2)[rule_format, of k]
      by (simp add: x find_snoc key_of_def i update_conv' split: option.splits)
  qed
  have dist: "distinct (map fst acc) \<longrightarrow> distinct (map fst c)"
    using c(3) by (simp add: distinct_update)
  from run look dist show ?case by blast
qed

lemma rekey_missing_id:
  "\<forall>x \<in> set data. \<exists>a. x = Object a \<Longrightarrow> \<exists>a. Object a \<in> set data \<and> a_id a = None \<Longrightarrow>
     rekey data acc = Inl KeyError"
proof (induction data arbitrary: acc)
  case Nil
  then show ?case by simp
next
  case (Cons x data)
  from Cons.prems(1) obtain a where x: "x = Object a" by auto
  show ?case
  proof (cases "a_id a")
    case None
    then show ?thesis by (simp add: x)
  next
    case (Some i)
    with Cons.prems(2) x have "\<exists>a. Object a \<in> set data \<and> a_id a = None" by auto
    moreover from Cons.prems(1) have "\<forall>x \<in> set data. \<exists>a. x = Object a" by simp
    ultimately have "rekey data (AList.update (str_int i) a acc) = Inl KeyError"
      by (rule Cons.IH[rotated])
    then show ?thesis by (simp add: x Some)
  qed
qed

text \<open>
  Claim C3, as amended. Loading returns the empty cache, and raises nothing, when the cache
  file is missing, when its text is not JSON, and when it is a list of records of which one
  has no identifier. A list of records that all have an identifier is migrated: the result
  is a dictionary with one entry per identifier, which holds the last record of the list
  with that identifier.
\<close>

theorem load_cache_spec:
  "load_cache Missing = Inr (Dict []) \<and>
   load_cache Malformed = Inr (Dict []) \<and>
   ((\<forall>x \<in> set data. \<exists>a. x = Object a) \<and> (\<exists>a. Object a \<in> set data \<and> a_id a = None) \<longrightarrow>
      load_cache (Parsed (ListDoc data)) = Inr (Dict [])) \<and>
   ((\<forall>x \<in> set data. \<exists>a. x = Object a \<and> a_id a \<noteq> None) \<longrightarrow>
      (\<exists>c. load_cache (Parsed (ListDoc data)) = Inr (Dict c) \<and>
           distinct (map fst c) \<and>
           (\<forall>k. map_of c k = find (\<lambda>a. key_of a = Some k) (rev (records_of data)))))"
proof -
  have bad: "(\<forall>x \<in> set data. \<exists>a. x = Object a) \<and> (\<exists>a. Object a \<in> set data \<and> a_id a = None) \<longrightarrow>
      load_cache (Parsed (ListDoc data)) = Inr (Dict [])"
  proof
    assume h: "(\<forall>x \<in> set data. \<exists>a. x = Object a) \<and> (\<exists>a. Object a \<in> set data \<and> a_id a = None)"
    then have "rekey data [] = Inl KeyError"
      using rekey_missing_id[of data "[]"] by blast
    then show "load_cache (Parsed (ListDoc data)) = Inr (Dict [])" by simp
  qed
  have good: "(\<forall>x \<in> set data. \<exists>a. x = Object a \<and> a_id a \<noteq> None) \<longrightarrow>
      (\<exists>c. load_cache (Parsed (ListDoc data)) = Inr (Dict c) \<and>
           distinct (map fst c) \<and>
           (\<forall>k. map_of c k = find (\<lambda>a. key_of a = Some k) (rev (records_of data))))"
  proof
    assume ok: "\<forall>x \<in> set data. \<exists>a. x = Object a \<and> a_id a \<noteq> None"
    from rekey_records[OF ok, of "[]"] obtain c where c:
      "rekey data [] = Inr c"
      "\<forall>k. map_of c k =
          (case find (\<lambda>a. key_of a = Some k) (rev (records_of data)) of
             Some a \<Rightarrow> Some a
           | None \<Rightarrow> map_of [] k)"
      "distinct (map fst c)"
      by auto
    have "\<forall>k. map_of c k = find (\<lambda>a. key_of a = Some k) (rev (records_of data))"
      using c(2) by (simp split: option.splits)
    with c(1,3) show "\<exists>c. load_cache (Parsed (ListDoc data)) = Inr (Dict c) \<and>
           distinct (map fst c) \<and>
           (\<forall>k. map_of c k = find (\<lambda>a. key_of a = Some k) (rev (records_of data)))"
      by simp
  qed
  from bad good show ?thesis by simp
qed

theorem load_cache_spec_witness:
  "load_cache (Parsed (ListDoc [Object monday_run, Object no_fields])) = Inr (Dict []) \<and>
   (\<exists>c. load_cache (Parsed (ListDoc [Object monday_run, Object tuesday_ride,
            Object (monday_run\<lparr>a_name := Some ''Renamed''\<rparr>)])) = Inr (Dict c) \<and>
        map_of c ''101'' = Some (monday_run\<lparr>a_name := Some ''Renamed''\<rparr>) \<and>
        map_of c ''102'' = Some tuesday_ride)"
proof -
  let ?bad = "[Object monday_run, Object no_fields]"
  let ?good = "[Object monday_run, Object tuesday_ride,
            Object (monday_run\<lparr>a_name := Some ''Renamed''\<rparr>)]"
  have b1: "\<forall>x \<in> set ?bad. \<exists>a. x = Object a"
    by simp
  have "Object no_fields \<in> set ?bad \<and> a_id no_fields = None"
    by (simp add: no_fields_def)
  then have b2: "\<exists>a. Object a \<in> set ?bad \<and> a_id a = None"
    by (rule exI)
  from b1 b2 have b: "(\<forall>x \<in> set ?bad. \<exists>a. x = Object a) \<and> (\<exists>a. Object a \<in> set ?bad \<and> a_id a = None)"
    by (rule conjI)
  have g: "\<forall>x \<in> set ?good. \<exists>a. x = Object a \<and> a_id a \<noteq> None"
    by (simp add: monday_run_def tuesday_ride_def no_fields_def)
  have k1: "find (\<lambda>a. key_of a = Some ''101'') (rev (records_of ?good))
      = Some (monday_run\<lparr>a_name := Some ''Renamed''\<rparr>)"
    by code_simp
  have k2: "find (\<lambda>a. key_of a = Some ''102'') (rev (records_of ?good)) = Some tuesday_ride"
    by code_simp
  have 1: "load_cache (Parsed (ListDoc ?bad)) = Inr (Dict [])"
    by (rule load_cache_spec[of ?bad, THEN conjunct2, THEN conjunct2, THEN conjunct1, THEN mp])
       (rule b)
  from load_cache_spec[of ?good, THEN conjunct2, THEN conjunct2, THEN conjunct2, THEN mp, OF g]
  obtain c where c:
    "load_cache (Parsed (ListDoc ?good)) = Inr (Dict c)"
    "\<forall>k. map_of c k = find (\<lambda>a. key_of a = Some k) (rev (records_of ?good))"
    by (elim exE conjE)
  have c1: "map_of c ''101'' = Some (monday_run\<lparr>a_name := Some ''Renamed''\<rparr>)"
    using c(2)[rule_format, of "''101''"] k1 by (rule trans)
  have c2: "map_of c ''102'' = Some tuesday_ride"
    using c(2)[rule_format, of "''102''"] k2 by (rule trans)
  from c(1) c1 c2 have "\<exists>c. load_cache (Parsed (ListDoc ?good)) = Inr (Dict c) \<and>
        map_of c ''101'' = Some (monday_run\<lparr>a_name := Some ''Renamed''\<rparr>) \<and>
        map_of c ''102'' = Some tuesday_ride"
    by (intro exI conjI)
  with 1 show ?thesis by (rule conjI)
qed

text \<open>
  Claim C3 as the specification states it does not hold. A cache file that cannot be read
  raises \<open>OSError\<close>, and a list with an entry that is not a record raises \<open>TypeError\<close>:
  \<open>load_cache\<close> catches \<open>JSONDecodeError\<close> and \<open>KeyError\<close> only. A document that is neither
  a list nor a dictionary is returned as it is.
\<close>

theorem load_cache_corrupt_counterexample:
  "load_cache Unreadable = Inl OSError \<and>
   load_cache (Parsed (ListDoc [Object monday_run, NonObject])) = Inl TypeError \<and>
   load_cache (Parsed OtherDoc) = Inr NotADict"
  by (simp add: monday_run_def no_fields_def)

section \<open>The activities of a week\<close>



section \<open>The most recent timestamp\<close>

lemma max_by_greatest:
  "max_by f best xs \<in> set (best # xs) \<and> (\<forall>x \<in> set (best # xs). f x \<le> f (max_by f best xs))"
proof (induction xs arbitrary: best)
  case Nil
  then show ?case by simp
next
  case (Cons x xs)
  let ?b = "if f best < f x then x else best"
  from Cons[of ?b] have ih: "max_by f ?b xs \<in> set (?b # xs)"
    "\<forall>y \<in> set (?b # xs). f y \<le> f (max_by f ?b xs)"
    by simp_all
  from ih(2) have b: "f ?b \<le> f (max_by f ?b xs)" by simp
  have "f best \<le> f ?b" "f x \<le> f ?b" by auto
  with b have "f best \<le> f (max_by f ?b xs)" "f x \<le> f (max_by f ?b xs)"
    by (meson order_trans)+
  with ih show ?case by auto
qed

text \<open>
  Claim C5. \<open>get_most_recent_timestamp\<close> returns \<open>None\<close> exactly when the cache is
  empty. When it returns a timestamp, that is the timestamp of the start of a cached
  record whose \<open>start_date_local\<close> no other cached record exceeds, and it is the lower
  bound of the fetch. It returns one whenever the cache is not empty and the start of
  every record can be read. With an empty cache the lower bound is the timestamp of the
  clock's reading 14 days earlier; a forced run works on the empty cache, any other run
  on the loaded one.
\<close>

theorem fetch_lower_bound:
  "(get_most_recent_timestamp local_offset cache = Inr None \<longleftrightarrow> cache = []) \<and>
   (\<forall>t. get_most_recent_timestamp local_offset cache = Inr (Some t) \<longrightarrow>
      (\<exists>a dt. a \<in> snd ` set cache \<and> start_datetime a = Inr dt \<and> t = timestamp local_offset dt \<and>
         (\<forall>b \<in> snd ` set cache. start_key b \<le> start_key a)) \<and>
      fetch_window local_offset now cache = Inr t) \<and>
   (cache \<noteq> [] \<and> (\<forall>a \<in> snd ` set cache. start_date a \<noteq> None) \<longrightarrow>
      (\<exists>t. get_most_recent_timestamp local_offset cache = Inr (Some t))) \<and>
   fetch_window local_offset now [] =
      Inr (timestamp local_offset (now\<lparr>dt_date := dt_date now - 14\<rparr>)) \<and>
   (load_cache file = Inr (Dict c) \<longrightarrow>
      starting_cache True file = Inr [] \<and> starting_cache False file = Inr c)"
proof -
  have none: "get_most_recent_timestamp local_offset cache = Inr None \<longleftrightarrow> cache = []"
    by (cases cache) (auto simp: get_most_recent_timestamp_def Let_def split: sum.splits)
  have some: "\<forall>t. get_most_recent_timestamp local_offset cache = Inr (Some t) \<longrightarrow>
      (\<exists>a dt. a \<in> snd ` set cache \<and> start_datetime a = Inr dt \<and> t = timestamp local_offset dt \<and>
         (\<forall>b \<in> snd ` set cache. start_key b \<le> start_key a)) \<and>
      fetch_window local_offset now cache = Inr t"
  proof (intro allI impI)
    fix t assume t: "get_most_recent_timestamp local_offset cache = Inr (Some t)"
    then obtain a rest where ar: "map snd cache = a # rest"
      by (cases "map snd cache") (simp_all add: get_most_recent_timestamp_def)
    let ?m = "max_by start_key a rest"
    from t ar obtain dt where dt: "start_datetime ?m = Inr dt" and tt: "t = timestamp local_offset dt"
      by (auto simp: get_most_recent_timestamp_def Let_def split: sum.splits if_splits)
    from max_by_greatest[of start_key a rest]
    have "?m \<in> set (a # rest)" "\<forall>b \<in> set (a # rest). start_key b \<le> start_key ?m"
      by blast+
    then have "?m \<in> set (map snd cache)" "\<forall>b \<in> set (map snd cache). start_key b \<le> start_key ?m"
      by (simp_all only: ar)
    then have "?m \<in> snd ` set cache" "\<forall>b \<in> snd ` set cache. start_key b \<le> start_key ?m"
      by simp_all
    with dt tt have "\<exists>a dt. a \<in> snd ` set cache \<and> start_datetime a = Inr dt \<and>
         t = timestamp local_offset dt \<and> (\<forall>b \<in> snd ` set cache. start_key b \<le> start_key a)"
      by blast
    moreover from t have "fetch_window local_offset now cache = Inr t"
      by (simp add: fetch_window_def)
    ultimately show "(\<exists>a dt. a \<in> snd ` set cache \<and> start_datetime a = Inr dt \<and>
         t = timestamp local_offset dt \<and> (\<forall>b \<in> snd ` set cache. start_key b \<le> start_key a)) \<and>
      fetch_window local_offset now cache = Inr t"
      by (rule conjI)
  qed
  have returns: "cache \<noteq> [] \<and> (\<forall>a \<in> snd ` set cache. start_date a \<noteq> None) \<longrightarrow>
      (\<exists>t. get_most_recent_timestamp local_offset cache = Inr (Some t))"
  proof
    assume h: "cache \<noteq> [] \<and> (\<forall>a \<in> snd ` set cache. start_date a \<noteq> None)"
    then obtain a rest where ar: "map snd cache = a # rest"
      by (cases "map snd cache") simp_all
    let ?m = "max_by start_key a rest"
    from max_by_greatest[of start_key a rest] have "?m \<in> set (a # rest)"
      by blast
    then have "?m \<in> set (map snd cache)"
      by (simp only: ar)
    then have min: "?m \<in> snd ` set cache" by simp
    from h have all: "\<forall>a \<in> snd ` set cache. start_date a \<noteq> None" by (rule conjunct2)
    from all min have "start_date ?m \<noteq> None" by (rule bspec)
    then obtain dt where dt: "start_datetime ?m = Inr dt"
      by (auto simp: start_date_def split: sum.splits)
    have "\<forall>b \<in> set (a # rest). start_date_local b \<noteq> None"
    proof
      fix b assume "b \<in> set (a # rest)"
      then have "b \<in> set (map snd cache)" by (simp only: ar)
      then have "b \<in> snd ` set cache" by simp
      with all have "start_date b \<noteq> None" by (rule bspec)
      then show "start_date_local b \<noteq> None"
        by (cases "start_date_local b") (simp_all add: start_date_def start_datetime_def)
    qed
    then have "\<not> (\<exists>b \<in> set (a # rest). start_date_local b = None)" by blast
    with dt ar show "\<exists>t. get_most_recent_timestamp local_offset cache = Inr (Some t)"
      by (simp add: get_most_recent_timestamp_def Let_def)
  qed
  have window: "fetch_window local_offset now [] =
      Inr (timestamp local_offset (now\<lparr>dt_date := dt_date now - 14\<rparr>))"
    by (simp add: fetch_window_def get_most_recent_timestamp_def minus_days_def BACKFILL_DAYS_def)
  have start: "load_cache file = Inr (Dict c) \<longrightarrow>
      starting_cache True file = Inr [] \<and> starting_cache False file = Inr c"
    by (simp add: starting_cache_def)
  from none some returns window start show ?thesis by (intro conjI)
qed

theorem fetch_lower_bound_witness:
  "get_most_recent_timestamp (\<lambda>_. 0)
      [(''101'', monday_run), (''103'', next_week_run), (''102'', tuesday_ride)] = Inr (Some 1705903200) \<and>
   fetch_window (\<lambda>_. 0) \<lparr>dt_date = 738908, dt_second = 36000, dt_micro = 0, dt_utcoffset = None\<rparr>
      [(''101'', monday_run), (''103'', next_week_run), (''102'', tuesday_ride)] = Inr 1705903200 \<and>
   fetch_window (\<lambda>_. 0) \<lparr>dt_date = 738908, dt_second = 36000, dt_micro = 0, dt_utcoffset = None\<rparr> []
      = Inr 1704794400"
proof -
  let ?cache = "[(''101'', monday_run), (''103'', next_week_run), (''102'', tuesday_ride)]"
  let ?now = "\<lparr>dt_date = 738908, dt_second = 36000, dt_micro = 0, dt_utcoffset = None\<rparr>"
  note T = fetch_lower_bound[of "\<lambda>_. 0" ?cache ?now]
  have g: "get_most_recent_timestamp (\<lambda>_. 0) ?cache = Inr (Some 1705903200)"
    by code_simp
  from T g have w: "fetch_window (\<lambda>_. 0) ?now ?cache = Inr 1705903200"
    by blast
  have "timestamp (\<lambda>_. 0) (?now\<lparr>dt_date := dt_date ?now - 14\<rparr>) = 1704794400"
    by code_simp
  with T have e: "fetch_window (\<lambda>_. 0) ?now [] = Inr 1704794400"
    by simp
  from g w e show ?thesis by (intro conjI)
qed

section \<open>Rest days\<close>

lemma start_dates_result:
  "start_dates xs = Inr ds \<Longrightarrow> map Some ds = map start_date xs"
proof (induction xs arbitrary: ds)
  case Nil
  then show ?case by simp
next
  case (Cons a xs)
  from Cons.prems obtain dt ds' where dt: "start_datetime a = Inr dt"
    and rest: "start_dates xs = Inr ds'" and ds: "ds = dt_date dt # ds'"
    by (auto split: sum.splits)
  from Cons.IH[OF rest] have "map Some ds' = map start_date xs" .
  then show ?case by (simp add: ds start_date_def dt)
qed

lemma start_dates_in_range:
  assumes "start_dates xs = Inr ds" and "\<forall>a \<in> set xs. in_range lo hi a"
  shows "set ds \<subseteq> {lo..hi}"
proof
  fix d assume "d \<in> set ds"
  then have "Some d \<in> set (map Some ds)" by simp
  then have "Some d \<in> set (map start_date xs)"
    by (simp only: start_dates_result[OF assms(1)])
  then obtain a where a: "a \<in> set xs" "start_date a = Some d" by auto
  with assms(2) have "in_range lo hi a" by simp
  with a(2) show "d \<in> {lo..hi}" by (simp add: in_range_def)
qed

text \<open>
  Claim C6, as amended. For the dates of a week's activities, the rest days are the days
  considered minus the number of distinct dates. The days considered are the days from
  the Monday to today when today is in the week, and 7 when the week is past. The rest
  days are never more than the days considered, and they are not negative when the week
  has begun and every activity is dated from the Monday to the earlier of today and the
  Sunday.
\<close>

theorem rest_days_spec:
  assumes "start_dates activities = Inr dates"
  shows "rest_days dates monday_date today
           = days_so_far monday_date today - int (card (set dates)) \<and>
         (is_current monday_date today \<longrightarrow> days_so_far monday_date today = today - monday_date + 1) \<and>
         (monday_date + 6 < today \<longrightarrow> days_so_far monday_date today = 7) \<and>
         rest_days dates monday_date today \<le> days_so_far monday_date today \<and>
         (monday_date \<le> today \<and>
          (\<forall>a \<in> set activities. in_range monday_date (min today (monday_date + 6)) a) \<longrightarrow>
            0 \<le> rest_days dates monday_date today)"
proof -
  have count: "rest_days dates monday_date today
           = days_so_far monday_date today - int (card (set dates))"
    by (simp add: rest_days_def length_remdups_card_conv)
  have current: "is_current monday_date today \<longrightarrow> days_so_far monday_date today = today - monday_date + 1"
    by (simp add: is_current_def days_so_far_def)
  have past: "monday_date + 6 < today \<longrightarrow> days_so_far monday_date today = 7"
    by (simp add: days_so_far_def)
  have upper: "rest_days dates monday_date today \<le> days_so_far monday_date today"
    by (simp add: rest_days_def)
  have lower: "monday_date \<le> today \<and>
          (\<forall>a \<in> set activities. in_range monday_date (min today (monday_date + 6)) a) \<longrightarrow>
            0 \<le> rest_days dates monday_date today"
  proof
    assume h: "monday_date \<le> today \<and>
          (\<forall>a \<in> set activities. in_range monday_date (min today (monday_date + 6)) a)"
    let ?hi = "min today (monday_date + 6)"
    from h have sub: "set dates \<subseteq> {monday_date..?hi}"
      using start_dates_in_range[OF assms] by blast
    have "card (set dates) \<le> card {monday_date..?hi}"
      by (rule card_mono[OF _ sub]) simp
    also have "int (card {monday_date..?hi}) = ?hi - monday_date + 1"
      using h by simp
    finally have "int (card (set dates)) \<le> days_so_far monday_date today"
      by (simp add: days_so_far_def)
    with count show "0 \<le> rest_days dates monday_date today" by simp
  qed
  from count current past upper lower show ?thesis by (intro conjI)
qed

theorem rest_days_spec_witness:
  "start_dates [monday_run, tuesday_ride] = Inr [738900, 738901] \<and>
   rest_days [738900, 738901] 738900 738908 = 5 \<and>
   days_so_far 738900 738908 = 7 \<and>
   0 \<le> rest_days [738900, 738901] 738900 738908 \<and>
   rest_days [738900, 738901] 738900 738908 \<le> days_so_far 738900 738908"
proof -
  have d: "start_dates [monday_run, tuesday_ride] = Inr [738900, 738901]"
    by code_simp
  have "list_all (in_range 738900 (min 738908 (738900 + 6))) [monday_run, tuesday_ride]"
    by code_simp
  then have r: "\<forall>a \<in> set [monday_run, tuesday_ride]. in_range 738900 (min 738908 (738900 + 6)) a"
    by (simp only: list_all_iff)
  note T = rest_days_spec[OF d, of 738900 738908]
  have c: "card (set [738900, 738901 :: int]) = 2" by simp
  from T have "rest_days [738900, 738901] 738900 738908
      = days_so_far 738900 738908 - int (card (set [738900, 738901 :: int]))"
    by (rule conjunct1)
  moreover from T have seven: "days_so_far 738900 738908 = 7" by simp
  ultimately have five: "rest_days [738900, 738901] 738900 738908 = 5"
    by (simp only: c)
  from T have up: "rest_days [738900, 738901] 738900 738908 \<le> days_so_far 738900 738908"
    by (elim conjE)
  from T r have low: "0 \<le> rest_days [738900, 738901] 738900 738908"
    by simp
  from d five seven low up show ?thesis by (intro conjI)
qed

text \<open>
  Claim C6 as the specification states it does not hold. On Monday 15 January 2024 the
  cache holds an activity of that Monday and one dated the Tuesday (the start is given in
  the time zone of the activity). Both are activities of the current week, one day is
  considered, and the rest days are \<open>-1\<close>; the totals read \<open>Rest days so far: -1/1\<close>.
\<close>

theorem rest_days_negative_counterexample:
  "activities_for_week [(''101'', monday_run), (''102'', tuesday_ride)] 738900
     = Inr [monday_run, tuesday_ride] \<and>
   start_dates [monday_run, tuesday_ride] = Inr [738900, 738901] \<and>
   is_current 738900 738900 \<and>
   days_so_far 738900 738900 = 1 \<and>
   rest_days [738900, 738901] 738900 738900 = - 1 \<and>
   build_week_totals [monday_run, tuesday_ride] 738900
       \<lparr>dt_date = 738900, dt_second = 72000, dt_micro = 0, dt_utcoffset = None\<rparr>
     = Inr (join newline
         [''- Running: 6.2 mi | 1 run | avg pace 10:00/mi'',
          ''- Cycling: 10.0 mi | 1 ride | 40m'',
          ''- Strength: (see status.md)'',
          ''- Rest days so far: -1/1'',
          ''- Total training hours: 1h 42m''])"
  by code_simp

section \<open>The aggregate pace of a week\<close>



section \<open>The pace of one activity\<close>



end
